theory Spec2Isabelle
  imports Complex_Main "HOL-Library.Sublist" "HOL-Library.Code_Target_Nat"
begin

section \<open>JavaScript strings\<close>

text \<open>
  A JavaScript string is a sequence of UTF-16 code units. The components compare, trim and
  search strings unit by unit, so a string is modelled as the list of its code units.
  \<open>str\<close> turns an ASCII literal into such a list.
\<close>

type_synonym jsstring = "nat list"

definition str :: "string \<Rightarrow> jsstring" where
  "str s = map of_char s"

text \<open>
  \<open>String.prototype.trim\<close> strips the code units of ECMAScript's WhiteSpace and
  LineTerminator productions from both ends: TAB, LF, VT, FF, CR, SP, NBSP, U+1680,
  U+2000 to U+200A, LS, PS, U+202F, U+205F, U+3000 and U+FEFF.
\<close>

definition isWhiteSpace :: "nat \<Rightarrow> bool" where
  "isWhiteSpace u =
     (u = 0x09 \<or> u = 0x0A \<or> u = 0x0B \<or> u = 0x0C \<or> u = 0x0D \<or> u = 0x20 \<or> u = 0xA0 \<or>
      u = 0x1680 \<or> (0x2000 \<le> u \<and> u \<le> 0x200A) \<or> u = 0x2028 \<or> u = 0x2029 \<or>
      u = 0x202F \<or> u = 0x205F \<or> u = 0x3000 \<or> u = 0xFEFF)"

definition trim :: "jsstring \<Rightarrow> jsstring" where
  "trim s = rev (dropWhile isWhiteSpace (rev (dropWhile isWhiteSpace s)))"

text \<open>
  \<open>String.prototype.toUpperCase\<close> maps each character to its upper-case form in Unicode
  (the simple mappings and the unconditional ones of SpecialCasing), whatever stands around
  it. \<open>upperLatin\<close> is that mapping for the code units below U+0180, that is for Basic
  Latin, Latin-1 Supplement and Latin Extended-A: \<open>a\<close> to \<open>z\<close> and U+00E0 to U+00FE
  (but the division sign) move down by 32, the micro sign becomes U+039C, the sharp s becomes
  \<open>SS\<close>, U+00FF becomes U+0178, the dotless i and the long s become \<open>I\<close> and \<open>S\<close>,
  U+0149 becomes U+02BC followed by \<open>N\<close>, the small letters of Latin Extended-A move to
  the capital before them, and every other unit, U+0138 among them, stays.
\<close>

definition upperLatin :: "nat \<Rightarrow> jsstring" where
  "upperLatin u =
     (if 0x61 \<le> u \<and> u \<le> 0x7A then [u - 0x20]
      else if u = 0xB5 then [0x39C]
      else if u = 0xDF then [0x53, 0x53]
      else if 0xE0 \<le> u \<and> u \<le> 0xFE \<and> u \<noteq> 0xF7 then [u - 0x20]
      else if u = 0xFF then [0x178]
      else if u = 0x131 then [0x49]
      else if u = 0x149 then [0x2BC, 0x4E]
      else if u = 0x17F then [0x53]
      else if ((0x100 \<le> u \<and> u \<le> 0x137) \<or> (0x14A \<le> u \<and> u \<le> 0x177)) \<and> odd u then [u - 1]
      else if ((0x139 \<le> u \<and> u \<le> 0x148) \<or> (0x179 \<le> u \<and> u \<le> 0x17E)) \<and> even u then [u - 1]
      else [u])"

text \<open>
  The rest of the mapping lives in the Unicode tables of the JavaScript runtime, which are
  not part of the repository: it is the parameter \<open>U\<close>, the runtime's \<open>toUpperCase\<close> on a
  string whose units are all from U+0180 upwards (surrogate pairs lie there whole). Since
  the mapping of a character does not depend on its neighbours, the upper-cased string is
  the concatenation of \<open>upperLatin\<close> on each unit below U+0180 and of \<open>U\<close> on each
  maximal run of the other units. \<open>upperRuns\<close> goes through the string once, \<open>run\<close>
  being the run collected so far.
\<close>

fun upperRuns :: "(jsstring \<Rightarrow> jsstring) \<Rightarrow> jsstring \<Rightarrow> jsstring \<Rightarrow> jsstring" where
  "upperRuns U run [] = (if run = [] then [] else U run)"
| "upperRuns U run (u # us) =
     (if u < 0x180 then (if run = [] then [] else U run) @ upperLatin u @ upperRuns U [] us
      else upperRuns U (run @ [u]) us)"

definition toUpperCase :: "(jsstring \<Rightarrow> jsstring) \<Rightarrow> jsstring \<Rightarrow> jsstring" where
  "toUpperCase U s = upperRuns U [] s"

text \<open>
  The lower-case letters (general category Ll) among the code units below U+0180, the
  strings written with units below U+0180 only, and the strings in which no such lower-case
  letter stands but U+0138, the one that has no upper-case form.
\<close>

definition isLowerCaseLetter :: "nat \<Rightarrow> bool" where
  "isLowerCaseLetter u =
     ((0x61 \<le> u \<and> u \<le> 0x7A) \<or> u = 0xB5 \<or> (0xDF \<le> u \<and> u \<le> 0xFF \<and> u \<noteq> 0xF7) \<or>
      u = 0x138 \<or> u = 0x149 \<or> u = 0x17F \<or>
      (((0x100 \<le> u \<and> u \<le> 0x137) \<or> (0x14A \<le> u \<and> u \<le> 0x177)) \<and> odd u) \<or>
      (((0x139 \<le> u \<and> u \<le> 0x148) \<or> (0x179 \<le> u \<and> u \<le> 0x17E)) \<and> even u))"

definition latin :: "jsstring \<Rightarrow> bool" where
  "latin s = list_all (\<lambda>u. u < 0x180) s"

definition no_lower_but_kra :: "jsstring \<Rightarrow> bool" where
  "no_lower_but_kra s = list_all (\<lambda>u. isLowerCaseLetter u \<longrightarrow> u = 0x138) s"

text \<open>
  \<open>s.includes(t)\<close>: \<open>t\<close> occurs in \<open>s\<close> as a contiguous run of units. The name carries
  a suffix because \<open>includes\<close> is a keyword of Isabelle.
\<close>

fun includes_js :: "jsstring \<Rightarrow> jsstring \<Rightarrow> bool" where
  "includes_js [] t = (t = [])"
| "includes_js (c # cs) t = (prefix t (c # cs) \<or> includes_js cs t)"

section \<open>HomePage: the verification form\<close>

text \<open>
  The body of \<open>POST /api/verify\<close> is an object literal \<open>{code: ..., ...location}\<close>: an
  ordered list of keys with their values.
\<close>

datatype json = JString jsstring | JNumber real

type_synonym body = "(string \<times> json) list"

record batch_info =
  name :: jsstring
  manufacturer :: jsstring
  expiry_date :: jsstring
  scan_count :: nat

text \<open>What the page keeps in \<open>result\<close>: the response's data, or the object of the catch block.\<close>

record verify_result =
  status :: jsstring
  reason :: jsstring
  confidence :: real
  batch_info :: "batch_info option"

record home_state =
  batchCode :: jsstring
  loading :: bool
  result :: "verify_result option"

definition home_init :: home_state where
  "home_init = \<lparr>batchCode = [], loading = False, result = None\<rparr>"

text \<open>
  What \<open>navigator.geolocation\<close> gives once the awaited promise has settled: the API is
  absent, or the promise around \<open>getCurrentPosition\<close> (timeout 5000 ms) is rejected and
  caught as \<open>null\<close>, or it resolves with a position and its latitude and longitude.
\<close>

datatype geolocation = NoGeolocation | GeoFailed | GeoPosition real real

text \<open>The effects of a handler, in the order the code performs them.\<close>

datatype effect =
    ToastError jsstring
  | ToastSuccess jsstring
  | ToastWarning jsstring
  | ConsoleError jsstring
  | HttpPost jsstring body

datatype http_error = RequestFailed

type_synonym server = "jsstring \<Rightarrow> body \<Rightarrow> http_error + verify_result"

text \<open>\<open>onChange\<close> of the input field: \<open>setBatchCode(e.target.value.toUpperCase())\<close>.\<close>

definition onChange :: "(jsstring \<Rightarrow> jsstring) \<Rightarrow> jsstring \<Rightarrow> home_state \<Rightarrow> home_state" where
  "onChange U v s = s\<lparr>batchCode := toUpperCase U v\<rparr>"

definition location_of :: "geolocation \<Rightarrow> body" where
  "location_of g =
     (case g of
        NoGeolocation \<Rightarrow> []
      | GeoFailed \<Rightarrow> []
      | GeoPosition la lo \<Rightarrow> [(''lat'', JNumber la), (''lng'', JNumber lo)])"

definition verify_body :: "jsstring \<Rightarrow> geolocation \<Rightarrow> body" where
  "verify_body bc g = (''code'', JString (trim bc)) # location_of g"

definition verify_url :: "jsstring \<Rightarrow> jsstring" where
  "verify_url backend = backend @ str ''/api'' @ str ''/verify''"

text \<open>U+274C, the cross mark of the label \<open>Error\<close>.\<close>

definition error_result :: verify_result where
  "error_result =
     \<lparr>status = str ''Error '' @ [0x274C],
      reason = str ''Unable to connect to verification service'',
      confidence = 0,
      batch_info = None\<rparr>"

definition result_toast :: "verify_result \<Rightarrow> effect" where
  "result_toast r =
     (if includes_js (status r) (str ''Valid'') then ToastSuccess (str ''Medicine verified as authentic!'')
      else if includes_js (status r) (str ''Expired'') then ToastWarning (str ''Medicine is expired!'')
      else ToastError (str ''Medicine verification failed!''))"

text \<open>
  \<open>handleVerify\<close>, from the state of the render it closes over to the state after its
  \<open>finally\<close> block, with the effects it performed. \<open>backend\<close> is \<open>REACT_APP_BACKEND_URL\<close>,
  \<open>g\<close> what geolocation gave and \<open>srv\<close> the answer of the server to a request
  (\<open>Inl\<close>: \<open>axios.post\<close> throws).
\<close>

definition handleVerify ::
  "jsstring \<Rightarrow> geolocation \<Rightarrow> server \<Rightarrow> home_state \<Rightarrow> home_state \<times> effect list" where
  "handleVerify backend g srv s =
     (if trim (batchCode s) = [] then
        (s, [ToastError (str ''Please enter a batch code'')])
      else
        let s1 = s\<lparr>loading := True, result := None\<rparr>;
            url = verify_url backend;
            b = verify_body (batchCode s) g
        in (case srv url b of
              Inr r \<Rightarrow>
                (s1\<lparr>result := Some r, loading := False\<rparr>, [HttpPost url b, result_toast r])
            | Inl e \<Rightarrow>
                (s1\<lparr>result := Some error_result, loading := False\<rparr>,
                 [HttpPost url b,
                  ConsoleError (str ''Verification error:''),
                  ToastError (str ''Failed to verify medicine. Please try again.'')])))"

definition http_requests :: "effect list \<Rightarrow> (jsstring \<times> body) list" where
  "http_requests es = concat (map (\<lambda>e. case e of HttpPost u b \<Rightarrow> [(u, b)] | _ \<Rightarrow> []) es)"

text \<open>The submit button: \<open>disabled={loading || !batchCode.trim()}\<close>.\<close>

definition submit_disabled :: "home_state \<Rightarrow> bool" where
  "submit_disabled s = (loading s \<or> trim (batchCode s) = [])"

datatype icon = CheckCircle | AlertCircle | XCircle | HelpCircle | Shield

definition getStatusIcon :: "jsstring \<Rightarrow> icon" where
  "getStatusIcon st =
     (if includes_js st (str ''Valid'') then CheckCircle
      else if includes_js st (str ''Expired'') then AlertCircle
      else if includes_js st (str ''Fake'') then XCircle
      else if includes_js st (str ''Suspected'') then HelpCircle
      else Shield)"

definition getStatusColor :: "jsstring \<Rightarrow> string" where
  "getStatusColor st =
     (if includes_js st (str ''Valid'') then ''bg-emerald-50 border-emerald-200 text-emerald-800''
      else if includes_js st (str ''Expired'') then ''bg-amber-50 border-amber-200 text-amber-800''
      else if includes_js st (str ''Fake'') then ''bg-red-50 border-red-200 text-red-800''
      else if includes_js st (str ''Suspected'') then ''bg-orange-50 border-orange-200 text-orange-800''
      else ''bg-gray-50 border-gray-200 text-gray-800'')"

text \<open>
  The page over time: the user types into the field (\<open>onChange\<close>) or submits the form
  (\<open>handleVerify\<close>, with what geolocation and the server give that time).
\<close>

datatype home_event = Change jsstring | Submit geolocation server

fun home_run ::
  "jsstring \<Rightarrow> (jsstring \<Rightarrow> jsstring) \<Rightarrow> home_event list \<Rightarrow> home_state \<Rightarrow>
     home_state \<times> effect list" where
  "home_run backend U [] s = (s, [])"
| "home_run backend U (Change v # evs) s = home_run backend U evs (onChange U v s)"
| "home_run backend U (Submit g srv # evs) s =
     (let (s1, es1) = handleVerify backend g srv s;
          (s2, es2) = home_run backend U evs s1
      in (s2, es1 @ es2))"

text \<open>An event that types nothing from U+0180 upwards.\<close>

definition latin_event :: "home_event \<Rightarrow> bool" where
  "latin_event ev = (case ev of Change v \<Rightarrow> latin v | Submit g srv \<Rightarrow> True)"

text \<open>An input that is empty or holds white space only.\<close>

definition blank :: "jsstring \<Rightarrow> bool" where
  "blank s = list_all isWhiteSpace s"

section \<open>App and AdminLogin: the gate before the dashboard\<close>

record app_state =
  isAdminAuthenticated :: bool
  adminToken :: "jsstring option"

definition app_init :: app_state where
  "app_init = \<lparr>isAdminAuthenticated = False, adminToken = None\<rparr>"

definition handleAdminLogin :: "jsstring option \<Rightarrow> app_state \<Rightarrow> app_state" where
  "handleAdminLogin tok s = s\<lparr>isAdminAuthenticated := True, adminToken := tok\<rparr>"

definition handleAdminLogout :: "app_state \<Rightarrow> app_state" where
  "handleAdminLogout s = s\<lparr>isAdminAuthenticated := False, adminToken := None\<rparr>"

text \<open>
  The three \<open>Route\<close> elements of \<open>App\<close>, by their paths \<open>/\<close>, \<open>/admin\<close> and
  \<open>/admin/login\<close>, and what each renders; a location that matches none renders nothing.
\<close>

datatype route = RootRoute | AdminRoute | AdminLoginRoute | NoRoute

datatype view = HomePageView | AdminDashboardView | AdminLoginView | Navigate route | NoView

definition element :: "app_state \<Rightarrow> route \<Rightarrow> view" where
  "element s r =
     (case r of
        RootRoute \<Rightarrow> HomePageView
      | AdminRoute \<Rightarrow>
          (if isAdminAuthenticated s then AdminDashboardView else Navigate AdminLoginRoute)
      | AdminLoginRoute \<Rightarrow>
          (if isAdminAuthenticated s then Navigate AdminRoute else AdminLoginView)
      | NoRoute \<Rightarrow> NoView)"

text \<open>What is on the screen once a \<open>Navigate\<close> has replaced the location.\<close>

definition rendered :: "app_state \<Rightarrow> route \<Rightarrow> view" where
  "rendered s r = (case element s r of Navigate r' \<Rightarrow> element s r' | v \<Rightarrow> v)"

record credentials =
  username :: jsstring
  password :: jsstring

text \<open>
  The state of \<open>AdminLogin\<close> (its \<open>loading\<close> is \<open>login_loading\<close> here, the name being
  taken by the home page) and the data of a login response: \<open>success\<close> is the truthiness
  of \<open>response.data.success\<close>, \<open>token\<close> and \<open>message\<close> may be absent.
\<close>

record login_state =
  credentials :: credentials
  login_loading :: bool

record login_response =
  success :: bool
  token :: "jsstring option"
  message :: "jsstring option"

type_synonym login_server = "jsstring \<Rightarrow> credentials \<Rightarrow> http_error + login_response"

definition login_url :: "jsstring \<Rightarrow> jsstring" where
  "login_url backend = backend @ str ''/api'' @ str ''/admin/login''"

definition login_body :: "credentials \<Rightarrow> body" where
  "login_body c = [(''username'', JString (username c)), (''password'', JString (password c))]"

text \<open>\<open>response.data.message || "Login failed"\<close>: an absent or empty message is falsy.\<close>

definition message_or_default :: "jsstring option \<Rightarrow> jsstring" where
  "message_or_default m =
     (case m of None \<Rightarrow> str ''Login failed'' | Some t \<Rightarrow> if t = [] then str ''Login failed'' else t)"

text \<open>
  \<open>handleSubmit\<close> of \<open>AdminLogin\<close>, with \<open>onLogin\<close> bound to \<open>handleAdminLogin\<close> as \<open>App\<close>
  passes it: the states of the form and of the application after it, and its effects.
\<close>

definition handleSubmit ::
  "jsstring \<Rightarrow> login_server \<Rightarrow> login_state \<Rightarrow> app_state \<Rightarrow> login_state \<times> app_state \<times> effect list" where
  "handleSubmit backend srv ls s =
     (if username (credentials ls) = [] \<or> password (credentials ls) = [] then
        (ls, s, [ToastError (str ''Please enter both username and password'')])
      else
        let url = login_url backend;
            req = HttpPost url (login_body (credentials ls))
        in (case srv url (credentials ls) of
              Inr r \<Rightarrow>
                if success r then
                  (ls\<lparr>login_loading := False\<rparr>, handleAdminLogin (token r) s,
                   [req, ToastSuccess (str ''Login successful!'')])
                else
                  (ls\<lparr>login_loading := False\<rparr>, s,
                   [req, ToastError (message_or_default (message r))])
            | Inl e \<Rightarrow>
                (ls\<lparr>login_loading := False\<rparr>, s,
                 [req, ConsoleError (str ''Login error:''),
                  ToastError (str ''Login failed. Please check your credentials.'')])))"

text \<open>
  The application over time: the login form is submitted with the credentials typed into
  it, answered by the server of that moment, or \<open>onLogout\<close> is called.
\<close>

datatype app_event = LoginSubmit credentials login_server | Logout

definition app_step :: "jsstring \<Rightarrow> app_event \<Rightarrow> app_state \<Rightarrow> app_state" where
  "app_step backend ev s =
     (case ev of
        LoginSubmit c srv \<Rightarrow>
          fst (snd (handleSubmit backend srv \<lparr>credentials = c, login_loading = False\<rparr> s))
      | Logout \<Rightarrow> handleAdminLogout s)"

fun app_run :: "jsstring \<Rightarrow> app_event list \<Rightarrow> app_state \<Rightarrow> app_state" where
  "app_run backend [] s = s"
| "app_run backend (ev # evs) s = app_run backend evs (app_step backend ev s)"

text \<open>A submission the server answered with \<open>success\<close> true.\<close>

definition login_succeeded :: "jsstring \<Rightarrow> app_event \<Rightarrow> bool" where
  "login_succeeded backend ev =
     (case ev of
        LoginSubmit c srv \<Rightarrow>
          (case srv (login_url backend) c of Inr r \<Rightarrow> success r | Inl e \<Rightarrow> False)
      | Logout \<Rightarrow> False)"

section \<open>The verification engine\<close>

text \<open>
  The engine is the backend's (\<open>backend/server.py\<close> in the README's project structure);
  of it the front end holds the callers only, the page above and the dashboard below. Its
  definitions follow the specification, sections 2 to 7.
\<close>

text \<open>Modelled from the spec: the four terminal outcomes of section 4.4, a closed enumeration
  (section 9); the backend's status type is missing.\<close>

datatype verification_status = Fake | Expired | Suspected | Valid

text \<open>Modelled from the spec: the BatchRecord of section 3, whose declaration is in the missing
  backend. The expiry date is a calendar date, counted in days; the scan count is a
  non-negative integer.\<close>

record BatchRecord =
  batch_code :: jsstring
  medicine_name :: jsstring
  manufacturer_name :: jsstring
  reliability_score :: real
  expiry_day :: int
  scanCount :: nat
  scan_locations :: "(real \<times> real) list"

type_synonym registry = "jsstring \<rightharpoonup> BatchRecord"

text \<open>Modelled from the spec: \<open>lookup(code) -> BatchRecord | NotFound\<close> of section 4.1, missing
  with the backend; \<open>None\<close> is NotFound.\<close>

definition lookup :: "registry \<Rightarrow> jsstring \<Rightarrow> BatchRecord option" where
  "lookup reg c = reg c"

text \<open>Modelled from the spec: \<open>recordScan(code)\<close> of section 4.1, missing with the backend: the
  scan count of an existing record goes up by one, an unknown code is a no-op.\<close>

definition recordScan :: "registry \<Rightarrow> jsstring \<Rightarrow> registry" where
  "recordScan reg c =
     (case reg c of None \<Rightarrow> reg | Some r \<Rightarrow> reg(c \<mapsto> r\<lparr>scanCount := scanCount r + 1\<rparr>))"

text \<open>Modelled from the spec: the result of \<open>evaluateExpiry\<close>, section 4.2.\<close>

record expiry =
  daysRemaining :: int
  isExpired :: bool

text \<open>Modelled from the spec: \<open>evaluateExpiry(expiryDate, now)\<close> of section 4.2, missing with
  the backend. Both dates are calendar days; the days remaining are their difference and may
  be negative; \<open>isExpired\<close> is true iff they are below zero.\<close>

definition evaluateExpiry :: "int \<Rightarrow> int \<Rightarrow> expiry" where
  "evaluateExpiry expiryDate now =
     \<lparr>daysRemaining = expiryDate - now, isExpired = (expiryDate - now < 0)\<rparr>"

text \<open>Modelled from the spec: what the engine is configured with and what is injected into it
  (sections 4.3, 4.4 and 9), its declaration being in the missing backend: the suspicion
  threshold, a single constant; the confidence reported for an expired batch; the Anomaly
  Scorer, from a record and its days to expiry to the anomaly score (feature assembly, scaler
  and frozen model together); and the fixed transform from a score to the anomaly
  confidence.\<close>

record engine =
  suspicion_threshold :: real
  expired_confidence :: real
  score :: "BatchRecord \<Rightarrow> int \<Rightarrow> real"
  calibrate :: "real \<Rightarrow> real"

text \<open>Modelled from the spec: the clamp to [0, 1] of section 4.4, branch 4.\<close>

definition clamp01 :: "real \<Rightarrow> real" where
  "clamp01 x = max 0 (min 1 x)"

text \<open>Modelled from the spec: the Classification Aggregator of section 4.4, missing with the
  backend: an ordered decision, each branch short-circuiting the next. Fake has the fixed
  confidence 1; Expired the engine's expiry confidence, whatever the anomaly score; Suspected
  the calibrated anomaly confidence; Valid its complement, clamped to [0, 1].\<close>

definition classify :: "engine \<Rightarrow> int \<Rightarrow> BatchRecord option \<Rightarrow> verification_status \<times> real" where
  "classify e now l =
     (case l of
        None \<Rightarrow> (Fake, 1)
      | Some r \<Rightarrow>
          let x = evaluateExpiry (expiry_day r) now in
          if isExpired x then (Expired, expired_confidence e)
          else
            let a = score e r (daysRemaining x);
                c = calibrate e a
            in if suspicion_threshold e < a then (Suspected, c)
               else (Valid, clamp01 (1 - c)))"

text \<open>Modelled from the spec: the VerificationEvent of section 3, missing with the backend. The
  timestamp counts seconds; a calendar day is 86400 of them.\<close>

record VerificationEvent =
  ev_code :: jsstring
  ev_status :: verification_status
  ev_confidence :: real
  ev_location :: "(real \<times> real) option"
  ev_timestamp :: int

text \<open>Modelled from the spec: the calendar day of a timestamp (section 4.6).\<close>

definition calendar_day :: "int \<Rightarrow> int" where
  "calendar_day t = t div 86400"

text \<open>Modelled from the spec: the response of \<open>POST /api/verify\<close> inside the engine (section 6),
  with the status as the enumeration; \<open>res_batch\<close> is present only when the batch was found.\<close>

record response =
  res_status :: verification_status
  res_confidence :: real
  res_batch :: "BatchRecord option"

text \<open>Modelled from the spec: the two shared resources of section 5, the Batch Registry and the
  log of the Verification Logger.\<close>

record engine_state =
  batches :: registry
  events :: "VerificationEvent list"

text \<open>Modelled from the spec: the InputError of section 7, a rejected request.\<close>

datatype engine_error = InputError

text \<open>Modelled from the spec: the flow of section 2 for one request, missing with the backend:
  an empty code is rejected with no classification; otherwise registry lookup,
  \<open>recordScan\<close> once when a record was found, classification, and one event appended to
  the log.\<close>

definition verify ::
  "engine \<Rightarrow> int \<Rightarrow> engine_state \<Rightarrow> jsstring \<Rightarrow> (real \<times> real) option \<Rightarrow>
     engine_error + response \<times> engine_state" where
  "verify e now st c loc =
     (if c = [] then Inl InputError
      else
        let l = lookup (batches st) c;
            reg = (case l of None \<Rightarrow> batches st | Some r \<Rightarrow> recordScan (batches st) c);
            (s, cf) = classify e (calendar_day now) l;
            ev = \<lparr>ev_code = c, ev_status = s, ev_confidence = cf, ev_location = loc,
                  ev_timestamp = now\<rparr>
        in Inr (\<lparr>res_status = s, res_confidence = cf, res_batch = l\<rparr>,
                \<lparr>batches = reg, events = events st @ [ev]\<rparr>))"

section \<open>The statistics summary and the dashboard that reads it\<close>

text \<open>Modelled from the spec: the summary of section 4.6, whose declaration is in the missing
  backend. \<open>countsByStatus\<close> is a mapping from status to count with all four statuses
  present, that is a function on the enumeration; \<open>dailyCounts\<close> pairs a calendar day with
  its count.\<close>

record summary =
  totalCount :: nat
  countsByStatus :: "verification_status \<Rightarrow> nat"
  dailyCounts :: "(int \<times> nat) list"
  totalBatches :: nat

text \<open>Modelled from the spec: the days on which events were logged, each once, ascending.\<close>

definition event_days :: "VerificationEvent list \<Rightarrow> int list" where
  "event_days evs = sort (remdups (map (\<lambda>ev. calendar_day (ev_timestamp ev)) evs))"

text \<open>Modelled from the spec: \<open>summarize(events)\<close> of section 4.6, missing with the backend;
  the number of batch records comes from the registry.\<close>

definition summarize :: "VerificationEvent list \<Rightarrow> nat \<Rightarrow> summary" where
  "summarize evs n =
     \<lparr>totalCount = length evs,
      countsByStatus = (\<lambda>s. length (filter (\<lambda>ev. ev_status ev = s) evs)),
      dailyCounts =
        map (\<lambda>d. (d, length (filter (\<lambda>ev. calendar_day (ev_timestamp ev) = d) evs)))
          (event_days evs),
      totalBatches = n\<rparr>"

text \<open>The events of one status, counted.\<close>

definition count_status :: "verification_status \<Rightarrow> VerificationEvent list \<Rightarrow> nat" where
  "count_status s evs = length (filter (\<lambda>ev. ev_status ev = s) evs)"

text \<open>
  \<open>AdminDashboard\<close> keeps in \<open>stats\<close> the data of the response of \<open>GET /api/stats\<close>, a
  JavaScript value parsed from JSON, and reads it property by property. A number is a count
  here; an object is the list of its own properties, each key once, in the order they were
  inserted; \<open>Undefined\<close> is what reading an absent property gives.
\<close>

datatype jvalue =
    Undefined
  | Null
  | Bool bool
  | Num nat
  | Str jsstring
  | Arr "jvalue list"
  | Obj "(jsstring \<times> jvalue) list"

datatype js_error = TypeError

text \<open>The values that \<open>stats ? ... : null\<close>, \<open>stats && ...\<close> and \<open>x || 0\<close> take as true.\<close>

definition truthy :: "jvalue \<Rightarrow> bool" where
  "truthy v =
     (case v of
        Undefined \<Rightarrow> False
      | Null \<Rightarrow> False
      | Bool b \<Rightarrow> b
      | Num n \<Rightarrow> n \<noteq> 0
      | Str s \<Rightarrow> s \<noteq> []
      | Arr xs \<Rightarrow> True
      | Obj m \<Rightarrow> True)"

text \<open>The decimal numeral of a number, and the number of a string of digits.\<close>

fun digits :: "nat \<Rightarrow> jsstring" where
  "digits n = (if n < 10 then [0x30 + n] else digits (n div 10) @ [0x30 + n mod 10])"

definition numeral_value :: "jsstring \<Rightarrow> nat" where
  "numeral_value k = foldl (\<lambda>a u. 10 * a + (u - 0x30)) 0 k"

text \<open>
  An array index among the keys: the canonical numeral of an integer from 0 to 4294967294.
  The own keys of an object come with the array indices first, in ascending order, and then
  the other keys in the order of their insertion.
\<close>

definition isArrayIndex :: "jsstring \<Rightarrow> bool" where
  "isArrayIndex k =
     (k \<noteq> [] \<and> list_all (\<lambda>u. 0x30 \<le> u \<and> u \<le> 0x39) k \<and> (length k = 1 \<or> hd k \<noteq> 0x30) \<and>
      numeral_value k < 4294967295)"

definition ownProperties :: "(jsstring \<times> jvalue) list \<Rightarrow> (jsstring \<times> jvalue) list" where
  "ownProperties m =
     sort_key (\<lambda>p. numeral_value (fst p)) (filter (\<lambda>p. isArrayIndex (fst p)) m) @
     filter (\<lambda>p. \<not> isArrayIndex (fst p)) m"

text \<open>
  \<open>v.k\<close> for a data property \<open>k\<close>: a TypeError on \<open>undefined\<close> and \<open>null\<close>; an own
  property of an object; an element or the length of an array or a string; \<open>undefined\<close>
  otherwise. (The methods that the prototypes define are not data and are not read this
  way.)
\<close>

definition getProp :: "jvalue \<Rightarrow> jsstring \<Rightarrow> js_error + jvalue" where
  "getProp v k =
     (case v of
        Undefined \<Rightarrow> Inl TypeError
      | Null \<Rightarrow> Inl TypeError
      | Obj m \<Rightarrow> Inr (case map_of m k of None \<Rightarrow> Undefined | Some x \<Rightarrow> x)
      | Arr xs \<Rightarrow>
          Inr (if k = str ''length'' then Num (length xs)
               else if isArrayIndex k \<and> numeral_value k < length xs then xs ! numeral_value k
               else Undefined)
      | Str s \<Rightarrow>
          Inr (if k = str ''length'' then Num (length s)
               else if isArrayIndex k \<and> numeral_value k < length s then Str [s ! numeral_value k]
               else Undefined)
      | _ \<Rightarrow> Inr Undefined)"

text \<open>\<open>Object.keys(v)\<close> and \<open>Object.values(v)\<close>.\<close>

definition objectKeys :: "jvalue \<Rightarrow> js_error + jsstring list" where
  "objectKeys v =
     (case v of
        Undefined \<Rightarrow> Inl TypeError
      | Null \<Rightarrow> Inl TypeError
      | Obj m \<Rightarrow> Inr (map fst (ownProperties m))
      | Arr xs \<Rightarrow> Inr (map digits [0..<length xs])
      | Str s \<Rightarrow> Inr (map digits [0..<length s])
      | _ \<Rightarrow> Inr [])"

definition objectValues :: "jvalue \<Rightarrow> js_error + jvalue list" where
  "objectValues v =
     (case v of
        Undefined \<Rightarrow> Inl TypeError
      | Null \<Rightarrow> Inl TypeError
      | Obj m \<Rightarrow> Inr (map snd (ownProperties m))
      | Arr xs \<Rightarrow> Inr xs
      | Str s \<Rightarrow> Inr (map (\<lambda>u. Str [u]) s)
      | _ \<Rightarrow> Inr [])"

text \<open>The label of a pie slice: \<open>key.charAt(0).toUpperCase() + key.slice(1)\<close>.\<close>

definition capitalize :: "(jsstring \<Rightarrow> jsstring) \<Rightarrow> jsstring \<Rightarrow> jsstring" where
  "capitalize U key = toUpperCase U (take 1 key) @ drop 1 key"

record pie_chart =
  pie_labels :: "jsstring list"
  pie_data :: "jvalue list"

text \<open>
  \<open>pieChartData\<close>: \<open>null\<close> while \<open>stats\<close> is not truthy; otherwise the labels from the
  keys of \<open>stats.status_distribution\<close> and the data from its values. The render throws
  where \<open>Object.keys\<close> throws.
\<close>

definition pieChartData :: "(jsstring \<Rightarrow> jsstring) \<Rightarrow> jvalue \<Rightarrow> js_error + pie_chart option" where
  "pieChartData U stats =
     (if \<not> truthy stats then Inr None
      else
        case getProp stats (str ''status_distribution'') of
          Inl e \<Rightarrow> Inl e
        | Inr sd \<Rightarrow>
            (case objectKeys sd of
               Inl e \<Rightarrow> Inl e
             | Inr ks \<Rightarrow>
                 (case objectValues sd of
                    Inl e \<Rightarrow> Inl e
                  | Inr vs \<Rightarrow> Inr (Some \<lparr>pie_labels = map (capitalize U) ks, pie_data = vs\<rparr>))))"

text \<open>The results of a callback over the items of an array, up to the first that throws.\<close>

fun collect :: "(js_error + 'a) list \<Rightarrow> js_error + 'a list" where
  "collect [] = Inr []"
| "collect (x # xs) =
     (case x of
        Inl e \<Rightarrow> Inl e
      | Inr v \<Rightarrow> (case collect xs of Inl e \<Rightarrow> Inl e | Inr vs \<Rightarrow> Inr (v # vs)))"

record bar_chart =
  bar_labels :: "jsstring list"
  bar_data :: "jvalue list"

text \<open>
  \<open>barChartData\<close>: \<open>stats.daily_verifications.map(...)\<close> throws unless the property is an
  array; the labels come from \<open>item._id\<close>, the data from \<open>item.count\<close>. \<open>fmt\<close> stands for
  \<open>new Date(item._id).toLocaleDateString('en-US', ...)\<close>, which gives a string for every
  value.
\<close>

definition barChartData :: "(jvalue \<Rightarrow> jsstring) \<Rightarrow> jvalue \<Rightarrow> js_error + bar_chart option" where
  "barChartData fmt stats =
     (if \<not> truthy stats then Inr None
      else
        case getProp stats (str ''daily_verifications'') of
          Inl e \<Rightarrow> Inl e
        | Inr dv \<Rightarrow>
            (case dv of
               Arr items \<Rightarrow>
                 (case collect (map (\<lambda>item. getProp item (str ''_id'')) items) of
                    Inl e \<Rightarrow> Inl e
                  | Inr ids \<Rightarrow>
                      (case collect (map (\<lambda>item. getProp item (str ''count'')) items) of
                         Inl e \<Rightarrow> Inl e
                       | Inr cs \<Rightarrow> Inr (Some \<lparr>bar_labels = map fmt ids, bar_data = cs\<rparr>)))
             | _ \<Rightarrow> Inl TypeError))"

text \<open>
  \<open>x || 0\<close>, and \<open>a + b\<close> on two numbers. On other operands JavaScript coerces, which the
  model does not follow: \<open>None\<close>.
\<close>

definition or_zero :: "jvalue \<Rightarrow> jvalue" where
  "or_zero x = (if truthy x then x else Num 0)"

definition js_plus :: "jvalue \<Rightarrow> jvalue \<Rightarrow> jvalue option" where
  "js_plus a b = (case a of Num x \<Rightarrow> (case b of Num y \<Rightarrow> Some (Num (x + y)) | _ \<Rightarrow> None) | _ \<Rightarrow> None)"

text \<open>
  The values of the four statistics cards, rendered when \<open>stats\<close> is truthy: the total, the
  valid count, the flagged count and the database size. (The percentage under the second
  card is a floating-point rounding of the same properties and is left out.)
\<close>

record stat_cards =
  total_card :: jvalue
  valid_card :: jvalue
  flagged_card :: "jvalue option"
  database_card :: jvalue

definition cards :: "jvalue \<Rightarrow> js_error + stat_cards option" where
  "cards stats =
     (if \<not> truthy stats then Inr None
      else
        case getProp stats (str ''total_verifications'') of
          Inl e \<Rightarrow> Inl e
        | Inr t \<Rightarrow>
            (case getProp stats (str ''status_distribution'') of
               Inl e \<Rightarrow> Inl e
             | Inr sd \<Rightarrow>
                 (case getProp sd (str ''valid'') of
                    Inl e \<Rightarrow> Inl e
                  | Inr v \<Rightarrow>
                      (case getProp sd (str ''fake'') of
                         Inl e \<Rightarrow> Inl e
                       | Inr f \<Rightarrow>
                           (case getProp sd (str ''suspected'') of
                              Inl e \<Rightarrow> Inl e
                            | Inr su \<Rightarrow>
                                (case getProp stats (str ''total_medicines'') of
                                   Inl e \<Rightarrow> Inl e
                                 | Inr m \<Rightarrow>
                                     Inr (Some \<lparr>total_card = or_zero t, valid_card = or_zero v,
                                                flagged_card = js_plus (or_zero f) (or_zero su),
                                                database_card = m\<rparr>)))))))"

text \<open>The status names the dashboard compares with (\<open>getStatusBadgeVariant\<close>).\<close>

definition status_key :: "verification_status \<Rightarrow> jsstring" where
  "status_key s =
     (case s of
        Valid \<Rightarrow> str ''valid''
      | Expired \<Rightarrow> str ''expired''
      | Fake \<Rightarrow> str ''fake''
      | Suspected \<Rightarrow> str ''suspected'')"

text \<open>
  A summary written as the object the dashboard reads: its four parts under the names
  \<open>total_verifications\<close>, \<open>status_distribution\<close>, \<open>daily_verifications\<close> and
  \<open>total_medicines\<close> of \<open>AdminDashboard.js\<close>, a status under the lower-case name the
  dashboard compares with, a day as an item with \<open>_id\<close> and \<open>count\<close>. \<open>did\<close> is the value
  that stands for a calendar day in \<open>_id\<close>.
\<close>

definition stats_object :: "(int \<Rightarrow> jvalue) \<Rightarrow> summary \<Rightarrow> jvalue" where
  "stats_object did sm =
     Obj [(str ''total_verifications'', Num (totalCount sm)),
          (str ''status_distribution'',
             Obj (map (\<lambda>s. (status_key s, Num (countsByStatus sm s)))
                   [Valid, Expired, Fake, Suspected])),
          (str ''daily_verifications'',
             Arr (map (\<lambda>(d, k). Obj [(str ''_id'', did d), (str ''count'', Num k)])
                   (dailyCounts sm))),
          (str ''total_medicines'', Num (totalBatches sm))]"

text \<open>Modelled from the spec: the shape that sections 4.6 and 6 give the response of
  \<open>GET /api/stats\<close>, missing with the backend: an object whose keys are \<open>totalCount\<close>,
  \<open>countsByStatus\<close>, \<open>dailyCounts\<close> and \<open>totalBatches\<close>.\<close>

definition summary_shape :: "jvalue \<Rightarrow> bool" where
  "summary_shape v =
     (case v of
        Obj m \<Rightarrow>
          distinct (map fst m) \<and>
          set (map fst m) =
            set [str ''totalCount'', str ''countsByStatus'', str ''dailyCounts'', str ''totalBatches'']
      | _ \<Rightarrow> False)"

section \<open>Properties of the verification form\<close>

lemma dropWhile_Nil_all: "dropWhile P xs = [] \<longleftrightarrow> list_all P xs"
  by (induction xs) auto

lemma list_all_dropWhile: "list_all P (dropWhile P xs) \<longleftrightarrow> list_all P xs"
  by (induction xs) auto

lemma trim_empty_iff: "trim s = [] \<longleftrightarrow> blank s"
proof -
  have "trim s = [] \<longleftrightarrow> list_all isWhiteSpace (rev (dropWhile isWhiteSpace s))"
    unfolding trim_def by (simp only: rev_is_Nil_conv dropWhile_Nil_all)
  also have "\<dots> \<longleftrightarrow> list_all isWhiteSpace (dropWhile isWhiteSpace s)"
    by (simp add: list_all_iff)
  also have "\<dots> \<longleftrightarrow> blank s"
    by (simp only: list_all_dropWhile blank_def)
  finally show ?thesis .
qed

lemma set_trim: "set (trim s) \<subseteq> set s"
proof -
  have "set (trim s) \<subseteq> set (dropWhile isWhiteSpace s)"
    unfolding trim_def using set_dropWhileD by fastforce
  also have "\<dots> \<subseteq> set s"
    using set_dropWhileD by fastforce
  finally show ?thesis .
qed

lemma upperRuns_latin: "latin s \<Longrightarrow> upperRuns U [] s = concat (map upperLatin s)"
  by (induction s) (simp_all add: latin_def)

lemma lower_ascii: "0x61 \<le> u \<Longrightarrow> u \<le> 0x7A \<Longrightarrow> \<not> isLowerCaseLetter (u - 0x20)"
  unfolding isLowerCaseLetter_def by arith

lemma lower_latin1: "0xE0 \<le> u \<Longrightarrow> u \<le> 0xFE \<Longrightarrow> u \<noteq> 0xF7 \<Longrightarrow> \<not> isLowerCaseLetter (u - 0x20)"
  unfolding isLowerCaseLetter_def by arith

lemma lower_odd:
  "(0x100 \<le> u \<and> u \<le> 0x137) \<or> (0x14A \<le> u \<and> u \<le> 0x177) \<Longrightarrow> odd u \<Longrightarrow>
     \<not> isLowerCaseLetter (u - 1)"
  unfolding isLowerCaseLetter_def by presburger

lemma lower_even:
  "(0x139 \<le> u \<and> u \<le> 0x148) \<or> (0x179 \<le> u \<and> u \<le> 0x17E) \<Longrightarrow> even u \<Longrightarrow>
     \<not> isLowerCaseLetter (u - 1)"
  unfolding isLowerCaseLetter_def by presburger


lemma lower_consts:
  "\<not> isLowerCaseLetter 0x39C" "\<not> isLowerCaseLetter 0x53" "\<not> isLowerCaseLetter 0x178"
  "\<not> isLowerCaseLetter 0x49" "\<not> isLowerCaseLetter 0x2BC" "\<not> isLowerCaseLetter 0x4E"
  by (simp_all add: isLowerCaseLetter_def)

lemma upperLatin_no_lower: "no_lower_but_kra (upperLatin u)"
proof (cases "0x61 \<le> u \<and> u \<le> 0x7A")
  case True
  then have "upperLatin u = [u - 0x20]"
    by (simp add: upperLatin_def)
  with True show ?thesis
    by (simp add: no_lower_but_kra_def lower_ascii)
next
  case n1: False
  show ?thesis
  proof (cases "u = 0xB5 \<or> u = 0xDF \<or> u = 0xFF \<or> u = 0x131 \<or> u = 0x149 \<or> u = 0x17F")
    case True
    then show ?thesis
      by (elim disjE) (simp_all add: upperLatin_def no_lower_but_kra_def lower_consts)
  next
    case n2: False
    show ?thesis
    proof (cases "0xE0 \<le> u \<and> u \<le> 0xFE \<and> u \<noteq> 0xF7")
      case True
      with n1 n2 have "upperLatin u = [u - 0x20]"
        by (simp add: upperLatin_def)
      with True show ?thesis
        by (simp add: no_lower_but_kra_def lower_latin1)
    next
      case n3: False
      show ?thesis
      proof (cases "((0x100 \<le> u \<and> u \<le> 0x137) \<or> (0x14A \<le> u \<and> u \<le> 0x177)) \<and> odd u")
        case True
        with n1 n2 n3 have "upperLatin u = [u - 1]"
          by (auto simp: upperLatin_def)
        with True show ?thesis
          using lower_odd [of u] by (simp add: no_lower_but_kra_def)
      next
        case n4: False
        show ?thesis
        proof (cases "((0x139 \<le> u \<and> u \<le> 0x148) \<or> (0x179 \<le> u \<and> u \<le> 0x17E)) \<and> even u")
          case True
          with n1 n2 n3 n4 have "upperLatin u = [u - 1]"
            by (auto simp: upperLatin_def)
          with True show ?thesis
            using lower_even [of u] by (simp add: no_lower_but_kra_def)
        next
          case n5: False
          with n1 n2 n3 n4 have "upperLatin u = [u]"
            by (auto simp: upperLatin_def)
          moreover have "isLowerCaseLetter u \<Longrightarrow> u = 0x138"
            using n1 n2 n3 n4 n5 unfolding isLowerCaseLetter_def by presburger
          ultimately show ?thesis
            by (auto simp: no_lower_but_kra_def)
        qed
      qed
    qed
  qed
qed

lemma no_lower_concat: "list_all no_lower_but_kra xss \<Longrightarrow> no_lower_but_kra (concat xss)"
  by (induction xss) (simp_all add: no_lower_but_kra_def)

lemma toUpperCase_latin: "latin s \<Longrightarrow> no_lower_but_kra (toUpperCase U s)"
  by (simp add: toUpperCase_def upperRuns_latin no_lower_concat list_all_iff upperLatin_no_lower)

lemma trim_no_lower: "no_lower_but_kra s \<Longrightarrow> no_lower_but_kra (trim s)"
  using set_trim [of s] by (auto simp: no_lower_but_kra_def list_all_iff)

lemma handleVerify_requests:
  "\<not> blank (batchCode s) \<Longrightarrow>
     http_requests (snd (handleVerify backend g srv s)) =
       [(verify_url backend, verify_body (batchCode s) g)]"
  by (simp add: handleVerify_def http_requests_def result_toast_def trim_empty_iff Let_def
      split: sum.splits)

lemma handleVerify_blank:
  "blank (batchCode s) \<Longrightarrow>
     handleVerify backend g srv s = (s, [ToastError (str ''Please enter a batch code'')])"
  by (simp add: handleVerify_def trim_empty_iff)

lemma handleVerify_batchCode: "batchCode (fst (handleVerify backend g srv s)) = batchCode s"
  by (simp add: handleVerify_def Let_def split: sum.splits)

text \<open>
  Claim C5. When the batch code is empty or holds white space only, \<open>handleVerify\<close> returns
  before any HTTP request: the state of the page is the one it started from, so no
  classification reaches it and a result that was \<open>null\<close> is still \<open>null\<close>. The submit
  button is disabled on such an input.
\<close>

theorem handleVerify_blank_input:
  "blank (batchCode s) \<Longrightarrow>
     fst (handleVerify backend g srv s) = s \<and>
     http_requests (snd (handleVerify backend g srv s)) = [] \<and>
     (result s = None \<longrightarrow> result (fst (handleVerify backend g srv s)) = None) \<and>
     submit_disabled s"
  by (simp add: handleVerify_blank http_requests_def submit_disabled_def trim_empty_iff)

theorem handleVerify_blank_input_witness:
  "blank (batchCode (onChange (\<lambda>r. r) (str ''  '') home_init)) \<and>
   result home_init = None \<and>
   result (fst (handleVerify (str ''http://localhost:8001'') (GeoPosition 1 2)
      (\<lambda>u b. Inl RequestFailed) (onChange (\<lambda>r. r) (str ''  '') home_init))) = None \<and>
   http_requests (snd (handleVerify (str ''http://localhost:8001'') (GeoPosition 1 2)
      (\<lambda>u b. Inl RequestFailed) (onChange (\<lambda>r. r) (str ''  '') home_init))) = []"
proof -
  have b: "blank (batchCode (onChange (\<lambda>r. r) (str ''  '') home_init))"
    by (simp add: blank_def onChange_def str_def toUpperCase_def upperLatin_def isWhiteSpace_def home_init_def)
  have r: "result (onChange (\<lambda>r. r) (str ''  '') home_init) = None"
    by (simp add: onChange_def home_init_def)
  show ?thesis
    using b r handleVerify_blank_input [OF b, of "str ''http://localhost:8001''"
        "GeoPosition 1 2" "\<lambda>u b. Inl RequestFailed"]
    by (simp add: home_init_def)
qed

text \<open>
  Claim C6. When the request is sent and \<open>axios.post\<close> throws, the result the page shows
  is the object of the catch block: status \<open>Error\<close> with the cross mark, confidence 0 and
  the reason "Unable to connect to verification service". That status holds none of the
  four labels Fake, Expired, Suspected and Valid, so the page draws it with the default
  icon and the grey card, not with those of a classification.
\<close>

theorem handleVerify_post_failure:
  "\<not> blank (batchCode s) \<Longrightarrow>
   srv (verify_url backend) (verify_body (batchCode s) g) = Inl e \<Longrightarrow>
     result (fst (handleVerify backend g srv s)) = Some error_result \<and>
     status error_result = str ''Error '' @ [0x274C] \<and>
     confidence error_result = 0 \<and>
     reason error_result = str ''Unable to connect to verification service'' \<and>
     \<not> includes_js (status error_result) (str ''Fake'') \<and>
     \<not> includes_js (status error_result) (str ''Expired'') \<and>
     \<not> includes_js (status error_result) (str ''Suspected'') \<and>
     \<not> includes_js (status error_result) (str ''Valid'') \<and>
     getStatusIcon (status error_result) = Shield \<and>
     getStatusColor (status error_result) = ''bg-gray-50 border-gray-200 text-gray-800''"
  by (simp add: handleVerify_def trim_empty_iff Let_def error_result_def str_def
      getStatusIcon_def getStatusColor_def)

theorem handleVerify_post_failure_witness:
  "\<not> blank (batchCode (onChange (\<lambda>r. r) (str ''med1'') home_init)) \<and>
   result (fst (handleVerify (str ''http://localhost:8001'') GeoFailed
      (\<lambda>u b. Inl RequestFailed) (onChange (\<lambda>r. r) (str ''med1'') home_init))) = Some error_result"
proof -
  have b: "\<not> blank (batchCode (onChange (\<lambda>r. r) (str ''med1'') home_init))"
    by (simp add: blank_def onChange_def str_def toUpperCase_def upperLatin_def isWhiteSpace_def home_init_def)
  show ?thesis
    using b handleVerify_post_failure [OF b, of "\<lambda>u b. Inl RequestFailed"
        "str ''http://localhost:8001''" GeoFailed RequestFailed]
    by simp
qed

lemma home_run_codes:
  "no_lower_but_kra (batchCode s) \<Longrightarrow> list_all latin_event evs \<Longrightarrow>
   (u, b) \<in> set (http_requests (snd (home_run backend U evs s))) \<Longrightarrow>
   \<exists>c. map_of b ''code'' = Some (JString c) \<and> no_lower_but_kra c"
proof (induction backend U evs s rule: home_run.induct)
  case (1 backend U s)
  then show ?case by (simp add: http_requests_def)
next
  case (2 backend U v evs s)
  then show ?case by (simp add: onChange_def latin_event_def toUpperCase_latin)
next
  case (3 backend U g srv evs s)
  obtain s1 es1 where h: "handleVerify backend g srv s = (s1, es1)"
    by (cases "handleVerify backend g srv s")
  obtain s2 es2 where r: "home_run backend U evs s1 = (s2, es2)"
    by (cases "home_run backend U evs s1")
  have bc: "batchCode s1 = batchCode s"
    using handleVerify_batchCode [of backend g srv s] h by simp
  from "3.prems"(3) h r
  have "(u, b) \<in> set (http_requests es1) \<or> (u, b) \<in> set (http_requests es2)"
    by (auto simp: http_requests_def)
  then show ?case
  proof
    assume a: "(u, b) \<in> set (http_requests es1)"
    show ?thesis
    proof (cases "blank (batchCode s)")
      case True
      then have "http_requests es1 = []"
        using h handleVerify_blank [of s backend g srv] by (auto simp: http_requests_def)
      with a show ?thesis by simp
    next
      case False
      from handleVerify_requests [OF False, of backend g srv] h a
      have "b = verify_body (batchCode s) g" by simp
      then show ?thesis
        using "3.prems"(1) by (simp add: verify_body_def trim_no_lower)
    qed
  next
    assume a: "(u, b) \<in> set (http_requests es2)"
    show ?thesis
      using "3.IH" [OF h [symmetric] refl] "3.prems"(1,2) bc a r by simp
  qed
qed

text \<open>
  Claim C7, as amended. Typing \<open>v\<close> into the field stores \<open>v\<close> upper-cased by
  \<open>toUpperCase\<close>; submitting then posts the upper-cased input, trimmed, under the key
  \<open>code\<close> (unless it is blank, when nothing is posted). When everything the user types,
  from the first render on, is written with code units below U+0180, no code the page posts
  holds a lower-case letter other than U+0138, the letter kra, which has no upper-case form
  and is posted as typed; in particular none holds a letter \<open>a\<close> to \<open>z\<close>.
\<close>

theorem batch_code_upper_cased:
  "batchCode (onChange U v s) = toUpperCase U v \<and>
   (blank (toUpperCase U v) \<or>
      http_requests (snd (handleVerify backend g srv (onChange U v s))) =
        [(verify_url backend, (''code'', JString (trim (toUpperCase U v))) # location_of g)]) \<and>
   (list_all latin_event evs \<longrightarrow>
      (\<forall>u b. (u, b) \<in> set (http_requests (snd (home_run backend U evs home_init))) \<longrightarrow>
         (\<exists>c. map_of b ''code'' = Some (JString c) \<and> no_lower_but_kra c \<and>
            \<not> list_ex (\<lambda>w. 0x61 \<le> w \<and> w \<le> 0x7A) c)))"
proof (intro conjI allI impI)
  show "batchCode (onChange U v s) = toUpperCase U v"
    by (simp add: onChange_def)
next
  show "blank (toUpperCase U v) \<or>
      http_requests (snd (handleVerify backend g srv (onChange U v s))) =
        [(verify_url backend, (''code'', JString (trim (toUpperCase U v))) # location_of g)]"
    using handleVerify_requests [of "onChange U v s" backend g srv]
    by (auto simp: onChange_def verify_body_def)
next
  fix u b
  assume l: "list_all latin_event evs"
    and m: "(u, b) \<in> set (http_requests (snd (home_run backend U evs home_init)))"
  have "no_lower_but_kra (batchCode home_init)"
    by (simp add: home_init_def no_lower_but_kra_def)
  from home_run_codes [OF this l m]
  obtain c where c: "map_of b ''code'' = Some (JString c)" "no_lower_but_kra c"
    by blast
  have "\<not> list_ex (\<lambda>w. 0x61 \<le> w \<and> w \<le> 0x7A) c"
    using c(2) by (auto simp: no_lower_but_kra_def list_all_iff list_ex_iff isLowerCaseLetter_def)
  with c show "\<exists>c. map_of b ''code'' = Some (JString c) \<and> no_lower_but_kra c \<and>
      \<not> list_ex (\<lambda>w. 0x61 \<le> w \<and> w \<le> 0x7A) c"
    by blast
qed

theorem batch_code_upper_cased_witness:
  "batchCode (onChange (\<lambda>r. r) [0x20, 0xE9, 0x61, 0xDF, 0x31, 0x20] home_init) =
     [0x20, 0xC9, 0x41, 0x53, 0x53, 0x31, 0x20] \<and>
   list_all latin_event
     [Change [0x20, 0xE9, 0x61, 0xDF, 0x31, 0x20], Submit GeoFailed (\<lambda>u b. Inl RequestFailed)] \<and>
   http_requests (snd (home_run (str ''B'') (\<lambda>r. r)
      [Change [0x20, 0xE9, 0x61, 0xDF, 0x31, 0x20], Submit GeoFailed (\<lambda>u b. Inl RequestFailed)]
      home_init)) =
     [(str ''B/api/verify'', [(''code'', JString [0xC9, 0x41, 0x53, 0x53, 0x31])])] \<and>
   no_lower_but_kra [0xC9, 0x41, 0x53, 0x53, 0x31]"
proof -
  have l: "list_all latin_event
     [Change [0x20, 0xE9, 0x61, 0xDF, 0x31, 0x20], Submit GeoFailed (\<lambda>u b. Inl RequestFailed)]"
    by (simp add: latin_event_def latin_def)
  have r: "http_requests (snd (home_run (str ''B'') (\<lambda>r. r)
      [Change [0x20, 0xE9, 0x61, 0xDF, 0x31, 0x20], Submit GeoFailed (\<lambda>u b. Inl RequestFailed)]
      home_init)) =
     [(str ''B/api/verify'', [(''code'', JString [0xC9, 0x41, 0x53, 0x53, 0x31])])]"
    by (simp add: handleVerify_def http_requests_def onChange_def home_init_def str_def
        toUpperCase_def upperLatin_def trim_def isWhiteSpace_def
        verify_url_def verify_body_def location_of_def Let_def)
  have m: "(str ''B/api/verify'', [(''code'', JString [0xC9, 0x41, 0x53, 0x53, 0x31])]) \<in>
      set (http_requests (snd (home_run (str ''B'') (\<lambda>r. r)
        [Change [0x20, 0xE9, 0x61, 0xDF, 0x31, 0x20], Submit GeoFailed (\<lambda>u b. Inl RequestFailed)]
        home_init)))"
    by (simp only: r list.set insertI1)
  from batch_code_upper_cased [of "\<lambda>r. r" "[0x20, 0xE9, 0x61, 0xDF, 0x31, 0x20]" home_init
      "str ''B''" GeoFailed "\<lambda>u b. Inl RequestFailed"
      "[Change [0x20, 0xE9, 0x61, 0xDF, 0x31, 0x20], Submit GeoFailed (\<lambda>u b. Inl RequestFailed)]"]
    l m
  have "batchCode (onChange (\<lambda>r. r) [0x20, 0xE9, 0x61, 0xDF, 0x31, 0x20] home_init) =
      toUpperCase (\<lambda>r. r) [0x20, 0xE9, 0x61, 0xDF, 0x31, 0x20] \<and>
    (\<exists>c. map_of [(''code'', JString [0xC9, 0x41, 0x53, 0x53, 0x31])] ''code'' = Some (JString c) \<and>
       no_lower_but_kra c)"
    by blast
  then show ?thesis
    using l r by (simp add: toUpperCase_def upperLatin_def)
qed

text \<open>
  Claim C7 as it was stated fails at the letter kra: typed into the field, U+0138 is stored
  as it is, since it has no upper-case form, and is posted as the code, a lower-case letter.
\<close>

theorem batch_code_lower_case_counterexample:
  "batchCode (onChange (\<lambda>r. r) [0x138] home_init) = [0x138] \<and>
   http_requests (snd (home_run (str ''B'') (\<lambda>r. r)
      [Change [0x138], Submit GeoFailed (\<lambda>u b. Inl RequestFailed)] home_init)) =
     [(str ''B/api/verify'', [(''code'', JString [0x138])])] \<and>
   isLowerCaseLetter 0x138"
  by (simp add: handleVerify_def http_requests_def onChange_def home_init_def str_def
      toUpperCase_def upperLatin_def trim_def isWhiteSpace_def isLowerCaseLetter_def
      verify_url_def verify_body_def location_of_def Let_def)

text \<open>
  Claim C8. A submission whose batch code is not blank sends exactly one request to
  \<open>/api/verify\<close>, whatever geolocation gave. Its body holds \<open>code\<close>, the trimmed batch
  code; it holds \<open>lat\<close> and \<open>lng\<close>, the coordinates, when geolocation gave a position, and
  neither key when the API is absent or the lookup failed; it holds no other key.
\<close>

theorem verify_request_body:
  "\<not> blank (batchCode s) \<Longrightarrow>
     (\<exists>b. http_requests (snd (handleVerify backend g srv s)) = [(verify_url backend, b)] \<and>
        map_of b ''code'' = Some (JString (trim (batchCode s))) \<and>
        (case g of
           GeoPosition la lo \<Rightarrow>
             map_of b ''lat'' = Some (JNumber la) \<and> map_of b ''lng'' = Some (JNumber lo)
         | _ \<Rightarrow> map_of b ''lat'' = None \<and> map_of b ''lng'' = None) \<and>
        set (map fst b) \<subseteq> {''code'', ''lat'', ''lng''})"
  using handleVerify_requests [of s backend g srv]
  by (auto simp: verify_body_def location_of_def split: geolocation.splits)

theorem verify_request_body_witness:
  "\<not> blank (batchCode (onChange (\<lambda>r. r) (str '' ab1 '') home_init)) \<and>
   http_requests (snd (handleVerify (str ''B'') (GeoPosition 12 77) (\<lambda>u b. Inl RequestFailed)
      (onChange (\<lambda>r. r) (str '' ab1 '') home_init))) =
     [(str ''B/api/verify'',
       [(''code'', JString (str ''AB1'')), (''lat'', JNumber 12), (''lng'', JNumber 77)])]"
proof -
  have b: "\<not> blank (batchCode (onChange (\<lambda>r. r) (str '' ab1 '') home_init))"
    by (simp add: blank_def onChange_def str_def toUpperCase_def upperLatin_def isWhiteSpace_def home_init_def)
  have t: "trim (batchCode (onChange (\<lambda>r. r) (str '' ab1 '') home_init)) = str ''AB1''"
    by (simp add: onChange_def str_def toUpperCase_def upperLatin_def isWhiteSpace_def home_init_def trim_def)
  have u: "verify_url (str ''B'') = str ''B/api/verify''"
    by (simp add: verify_url_def str_def)
  from verify_request_body [OF b, of "str ''B''" "GeoPosition 12 77" "\<lambda>u b. Inl RequestFailed"]
  obtain bd where h: "http_requests (snd (handleVerify (str ''B'') (GeoPosition 12 77)
      (\<lambda>u b. Inl RequestFailed) (onChange (\<lambda>r. r) (str '' ab1 '') home_init))) = [(verify_url (str ''B''), bd)]"
    by blast
  have "bd = verify_body (batchCode (onChange (\<lambda>r. r) (str '' ab1 '') home_init)) (GeoPosition 12 77)"
    using h handleVerify_requests [OF b, of "str ''B''" "GeoPosition 12 77" "\<lambda>u b. Inl RequestFailed"]
    by simp
  then show ?thesis
    using b h t u by (simp add: verify_body_def location_of_def)
qed

section \<open>Properties of the admin gate\<close>

lemma app_step_authenticated:
  "isAdminAuthenticated (app_step backend ev s) \<Longrightarrow>
     isAdminAuthenticated s \<or> login_succeeded backend ev"
  by (auto simp: app_step_def handleSubmit_def handleAdminLogout_def login_succeeded_def Let_def
      split: app_event.splits sum.splits if_splits)

lemma app_run_authenticated:
  "isAdminAuthenticated (app_run backend evs s) \<Longrightarrow>
     isAdminAuthenticated s \<or> list_ex (login_succeeded backend) evs"
proof (induction evs arbitrary: s)
  case Nil
  then show ?case by simp
next
  case (Cons ev evs)
  from Cons.IH [of "app_step backend ev s"] Cons.prems
  have "isAdminAuthenticated (app_step backend ev s) \<or> list_ex (login_succeeded backend) evs"
    by simp
  then show ?case
    using app_step_authenticated [of backend ev s] by auto
qed

lemma rendered_dashboard: "rendered s r = AdminDashboardView \<Longrightarrow> isAdminAuthenticated s"
  by (auto simp: rendered_def element_def split: route.splits if_splits)

text \<open>
  Claim C10. \<open>App\<close> starts with \<open>isAdminAuthenticated\<close> false and \<open>adminToken\<close> null; the
  route \<open>/admin\<close> renders the dashboard when \<open>isAdminAuthenticated\<close> is true and redirects
  to \<open>/admin/login\<close> otherwise; \<open>handleSubmit\<close> of the login form makes
  \<open>isAdminAuthenticated\<close> true only when the login response reports success; and after
  any sequence of submissions and logouts from the first render, a screen that shows the
  dashboard implies that one of the submissions was answered with success.
\<close>

theorem dashboard_needs_login:
  "isAdminAuthenticated app_init = False \<and> adminToken app_init = None \<and>
   element s AdminRoute =
     (if isAdminAuthenticated s then AdminDashboardView else Navigate AdminLoginRoute) \<and>
   (isAdminAuthenticated (fst (snd (handleSubmit backend srv ls s))) \<longrightarrow>
      isAdminAuthenticated s \<or>
      (\<exists>r. srv (login_url backend) (credentials ls) = Inr r \<and> success r)) \<and>
   (rendered (app_run backend evs app_init) r = AdminDashboardView \<longrightarrow>
      list_ex (login_succeeded backend) evs)"
proof (intro conjI impI)
  show "isAdminAuthenticated app_init = False" "adminToken app_init = None"
    by (simp_all add: app_init_def)
  show "element s AdminRoute =
     (if isAdminAuthenticated s then AdminDashboardView else Navigate AdminLoginRoute)"
    by (simp add: element_def)
next
  assume "isAdminAuthenticated (fst (snd (handleSubmit backend srv ls s)))"
  then show "isAdminAuthenticated s \<or>
      (\<exists>r. srv (login_url backend) (credentials ls) = Inr r \<and> success r)"
    by (auto simp: handleSubmit_def Let_def split: sum.splits if_splits)
next
  assume "rendered (app_run backend evs app_init) r = AdminDashboardView"
  then have "isAdminAuthenticated (app_run backend evs app_init)"
    by (rule rendered_dashboard)
  then show "list_ex (login_succeeded backend) evs"
    using app_run_authenticated [of backend evs app_init] by (simp add: app_init_def)
qed

theorem dashboard_needs_login_witness:
  "isAdminAuthenticated (fst (snd (handleSubmit (str ''B'')
      (\<lambda>u c. Inr \<lparr>success = True, token = Some (str ''t''), message = None\<rparr>)
      \<lparr>credentials = \<lparr>username = str ''admin'', password = str ''admin123''\<rparr>,
        login_loading = False\<rparr> app_init))) \<and>
   rendered (app_run (str ''B'')
      [LoginSubmit \<lparr>username = str ''admin'', password = str ''admin123''\<rparr>
        (\<lambda>u c. Inr \<lparr>success = True, token = Some (str ''t''), message = None\<rparr>)] app_init)
      AdminRoute = AdminDashboardView \<and>
   list_ex (login_succeeded (str ''B''))
      [LoginSubmit \<lparr>username = str ''admin'', password = str ''admin123''\<rparr>
        (\<lambda>u c. Inr \<lparr>success = True, token = Some (str ''t''), message = None\<rparr>)] \<and>
   rendered (app_run (str ''B'')
      [LoginSubmit \<lparr>username = str ''admin'', password = str ''wrong''\<rparr>
        (\<lambda>u c. Inr \<lparr>success = False, token = None, message = None\<rparr>)] app_init)
      AdminRoute = AdminLoginView"
proof -
  have a: "isAdminAuthenticated (fst (snd (handleSubmit (str ''B'')
      (\<lambda>u c. Inr \<lparr>success = True, token = Some (str ''t''), message = None\<rparr>)
      \<lparr>credentials = \<lparr>username = str ''admin'', password = str ''admin123''\<rparr>,
        login_loading = False\<rparr> app_init)))"
    by (simp add: handleSubmit_def handleAdminLogin_def app_init_def str_def Let_def)
  have d: "rendered (app_run (str ''B'')
      [LoginSubmit \<lparr>username = str ''admin'', password = str ''admin123''\<rparr>
        (\<lambda>u c. Inr \<lparr>success = True, token = Some (str ''t''), message = None\<rparr>)] app_init)
      AdminRoute = AdminDashboardView"
    by (simp add: rendered_def element_def app_step_def handleSubmit_def handleAdminLogin_def
        app_init_def str_def Let_def)
  have n: "rendered (app_run (str ''B'')
      [LoginSubmit \<lparr>username = str ''admin'', password = str ''wrong''\<rparr>
        (\<lambda>u c. Inr \<lparr>success = False, token = None, message = None\<rparr>)] app_init)
      AdminRoute = AdminLoginView"
    by (simp add: rendered_def element_def app_step_def handleSubmit_def handleAdminLogin_def
        app_init_def str_def Let_def)
  from dashboard_needs_login [of app_init "str ''B''"
      "\<lambda>u c. Inr \<lparr>success = True, token = Some (str ''t''), message = None\<rparr>"
      "\<lparr>credentials = \<lparr>username = str ''admin'', password = str ''admin123''\<rparr>,
        login_loading = False\<rparr>"
      "[LoginSubmit \<lparr>username = str ''admin'', password = str ''admin123''\<rparr>
        (\<lambda>u c. Inr \<lparr>success = True, token = Some (str ''t''), message = None\<rparr>)]" AdminRoute] d
  have "list_ex (login_succeeded (str ''B''))
      [LoginSubmit \<lparr>username = str ''admin'', password = str ''admin123''\<rparr>
        (\<lambda>u c. Inr \<lparr>success = True, token = Some (str ''t''), message = None\<rparr>)]"
    by blast
  with a d n show ?thesis by simp
qed

section \<open>Properties of the engine\<close>

lemma verify_total: "c \<noteq> [] \<Longrightarrow> \<exists>resp st'. verify e now st c loc = Inr (resp, st')"
  by (simp add: verify_def Let_def split: prod.splits)

text \<open>
  Claim C1. Every request with a code is answered with one status, the one of an ordered
  decision: Fake when the registry lookup finds nothing; otherwise Expired when the record
  is expired, whatever the anomaly score; otherwise Suspected when the anomaly score
  exceeds the suspicion threshold; otherwise Valid.
\<close>

theorem verify_ordered_decision:
  "c \<noteq> [] \<Longrightarrow>
     (\<exists>resp st'. verify e now st c loc = Inr (resp, st') \<and>
        res_status resp = fst (classify e (calendar_day now) (lookup (batches st) c))) \<and>
     fst (classify e d None) = Fake \<and>
     fst (classify e d (Some r)) =
       (if isExpired (evaluateExpiry (expiry_day r) d) then Expired
        else if suspicion_threshold e < score e r (daysRemaining (evaluateExpiry (expiry_day r) d))
          then Suspected
        else Valid)"
  by (simp add: verify_def classify_def Let_def split: option.splits prod.splits)

theorem verify_ordered_decision_witness:
  "str ''FAKE999999Z'' \<noteq> [] \<and>
   (\<exists>resp st'. verify
      \<lparr>suspicion_threshold = 1/2, expired_confidence = 9/10,
        score = (\<lambda>r d. if 100 < scanCount r then 1 else 0), calibrate = clamp01\<rparr>
      1762128000 \<lparr>batches = Map.empty, events = []\<rparr> (str ''FAKE999999Z'') None = Inr (resp, st') \<and>
      res_status resp = Fake)"
proof -
  have n: "str ''FAKE999999Z'' \<noteq> []"
    by (simp add: str_def)
  from verify_ordered_decision [OF n,
      of "\<lparr>suspicion_threshold = 1/2, expired_confidence = 9/10,
        score = (\<lambda>r d. if 100 < scanCount r then 1 else 0), calibrate = clamp01\<rparr>"
      1762128000 "\<lparr>batches = Map.empty, events = []\<rparr>" None 0]
  show ?thesis
    using n by (simp add: lookup_def classify_def)
qed

text \<open>
  Claim C2. \<open>evaluateExpiry\<close> reports \<open>isExpired\<close> exactly when the days remaining are
  below zero; a batch whose expiry date is today (zero days remaining) is not expired, and
  its status is Valid or Suspected, never Expired.
\<close>

theorem expiry_boundary:
  "isExpired (evaluateExpiry x d) = (daysRemaining (evaluateExpiry x d) < 0) \<and>
   (daysRemaining (evaluateExpiry (expiry_day r) d) = 0 \<longrightarrow>
      \<not> isExpired (evaluateExpiry (expiry_day r) d) \<and>
      fst (classify e d (Some r)) \<noteq> Expired \<and>
      (fst (classify e d (Some r)) = Valid \<or> fst (classify e d (Some r)) = Suspected))"
  by (simp add: evaluateExpiry_def classify_def Let_def)

theorem expiry_boundary_witness:
  "daysRemaining (evaluateExpiry (expiry_day
      \<lparr>batch_code = str ''MED597233X'', medicine_name = str ''Paracetamol 500mg'',
        manufacturer_name = str ''PharmaCorp'', reliability_score = 9/10, expiry_day = 20400,
        scanCount = 3, scan_locations = []\<rparr>) 20400) = 0 \<and>
   fst (classify
      \<lparr>suspicion_threshold = 1/2, expired_confidence = 9/10,
        score = (\<lambda>r d. if 100 < scanCount r then 1 else 0), calibrate = clamp01\<rparr> 20400
      (Some \<lparr>batch_code = str ''MED597233X'', medicine_name = str ''Paracetamol 500mg'',
        manufacturer_name = str ''PharmaCorp'', reliability_score = 9/10, expiry_day = 20400,
        scanCount = 3, scan_locations = []\<rparr>)) = Valid"
proof -
  have z: "daysRemaining (evaluateExpiry (expiry_day
      \<lparr>batch_code = str ''MED597233X'', medicine_name = str ''Paracetamol 500mg'',
        manufacturer_name = str ''PharmaCorp'', reliability_score = 9/10, expiry_day = 20400,
        scanCount = 3, scan_locations = []\<rparr>) 20400) = 0"
    by (simp add: evaluateExpiry_def)
  from expiry_boundary [of 20400 20400
      "\<lparr>batch_code = str ''MED597233X'', medicine_name = str ''Paracetamol 500mg'',
        manufacturer_name = str ''PharmaCorp'', reliability_score = 9/10, expiry_day = 20400,
        scanCount = 3, scan_locations = []\<rparr>"
      "\<lparr>suspicion_threshold = 1/2, expired_confidence = 9/10,
        score = (\<lambda>r d. if 100 < scanCount r then 1 else 0), calibrate = clamp01\<rparr>"] z
  have "fst (classify
      \<lparr>suspicion_threshold = 1/2, expired_confidence = 9/10,
        score = (\<lambda>r d. if 100 < scanCount r then 1 else 0), calibrate = clamp01\<rparr> 20400
      (Some \<lparr>batch_code = str ''MED597233X'', medicine_name = str ''Paracetamol 500mg'',
        manufacturer_name = str ''PharmaCorp'', reliability_score = 9/10, expiry_day = 20400,
        scanCount = 3, scan_locations = []\<rparr>)) \<noteq> Expired"
    by blast
  then show ?thesis
    using z by (simp add: classify_def evaluateExpiry_def Let_def)
qed

text \<open>
  Claim C4. A request whose lookup finds a record leaves the registry as one \<open>recordScan\<close>
  of its code leaves it: the scan count of that record is one higher, whatever the status
  (which is not Fake), and every other record is as before. A request whose code is unknown
  is answered Fake and leaves the registry as it was.
\<close>

theorem recordScan_once:
  "verify e now st c loc = Inr (resp, st') \<Longrightarrow>
     (case lookup (batches st) c of
        Some r \<Rightarrow>
          batches st' = recordScan (batches st) c \<and>
          batches st' c = Some (r\<lparr>scanCount := scanCount r + 1\<rparr>) \<and>
          (\<forall>k. k \<noteq> c \<longrightarrow> batches st' k = batches st k) \<and>
          res_status resp \<noteq> Fake
      | None \<Rightarrow> batches st' = batches st \<and> res_status resp = Fake)"
  by (auto simp: verify_def lookup_def recordScan_def classify_def Let_def
      split: option.splits prod.splits if_splits)


theorem recordScan_once_witness:
  "(\<exists>resp st'. verify
      \<lparr>suspicion_threshold = 1/2, expired_confidence = 9/10,
        score = (\<lambda>r d. if 100 < scanCount r then 1 else 0), calibrate = clamp01\<rparr>
      1762128000
      \<lparr>batches = [str ''M1'' \<mapsto>
          \<lparr>batch_code = str ''M1'', medicine_name = str ''Paracetamol 500mg'',
            manufacturer_name = str ''PharmaCorp'', reliability_score = 9/10, expiry_day = 20400,
            scanCount = 3, scan_locations = []\<rparr>], events = []\<rparr>
      (str ''M1'') None = Inr (resp, st') \<and>
      map_option scanCount (batches st' (str ''M1'')) = Some 4 \<and> res_status resp \<noteq> Fake)"
proof -
  have "str ''M1'' \<noteq> []"
    by (simp add: str_def)
  from verify_total [OF this]
  obtain resp st' where v: "verify
      \<lparr>suspicion_threshold = 1/2, expired_confidence = 9/10,
        score = (\<lambda>r d. if 100 < scanCount r then 1 else 0), calibrate = clamp01\<rparr>
      1762128000
      \<lparr>batches = [str ''M1'' \<mapsto>
          \<lparr>batch_code = str ''M1'', medicine_name = str ''Paracetamol 500mg'',
            manufacturer_name = str ''PharmaCorp'', reliability_score = 9/10, expiry_day = 20400,
            scanCount = 3, scan_locations = []\<rparr>], events = []\<rparr>
      (str ''M1'') None = Inr (resp, st')"
    by blast
  from recordScan_once [OF v]
  have "map_option scanCount (batches st' (str ''M1'')) = Some 4 \<and> res_status resp \<noteq> Fake"
    by (simp add: lookup_def recordScan_def)
  with v show ?thesis by blast
qed

section \<open>Properties of the statistics\<close>

lemma count_status_sum:
  "count_status Valid evs + count_status Expired evs + count_status Fake evs +
   count_status Suspected evs = length evs"
proof (induction evs)
  case Nil
  then show ?case by (simp add: count_status_def)
next
  case (Cons ev evs)
  then show ?case by (cases "ev_status ev") (simp_all add: count_status_def)
qed

lemma sorted_event_days: "sorted (event_days evs) \<and> distinct (event_days evs)"
  by (simp add: event_days_def)

lemma set_event_days: "set (event_days evs) = (\<lambda>ev. calendar_day (ev_timestamp ev)) ` set evs"
  by (simp add: event_days_def)

lemma sum_buckets:
  "distinct ds \<Longrightarrow> f ` set xs \<subseteq> set ds \<Longrightarrow>
     sum_list (map (\<lambda>d. length (filter (\<lambda>x. f x = d) xs)) ds) = length xs"
proof (induction xs)
  case Nil
  then show ?case by simp
next
  case (Cons x xs)
  then have m: "f x \<in> set ds"
    and ih: "sum_list (map (\<lambda>d. length (filter (\<lambda>x. f x = d) xs)) ds) = length xs"
    by auto
  have "sum_list (map (\<lambda>d. length (filter (\<lambda>y. f y = d) (x # xs))) ds) =
        sum_list (map (\<lambda>d. (if f x = d then 1 else 0) + length (filter (\<lambda>y. f y = d) xs)) ds)"
    by (rule arg_cong [where f = sum_list]) auto
  also have "\<dots> = sum_list (map (\<lambda>d. if f x = d then 1 else 0) ds) +
      sum_list (map (\<lambda>d. length (filter (\<lambda>y. f y = d) xs)) ds)"
    by (simp add: sum_list_addf)
  also have "sum_list (map (\<lambda>d. if f x = d then 1 else 0) ds) = (1::nat)"
    using Cons.prems(1) m
    by (induction ds) auto
  finally show ?case using ih by simp
qed

lemma status_keys_not_indices:
  "\<not> isArrayIndex (str ''valid'')" "\<not> isArrayIndex (str ''expired'')"
  "\<not> isArrayIndex (str ''fake'')" "\<not> isArrayIndex (str ''suspected'')"
  by (simp_all add: isArrayIndex_def str_def)

lemma status_properties:
  "ownProperties (map (\<lambda>s. (status_key s, c s)) [Valid, Expired, Fake, Suspected]) =
     map (\<lambda>s. (status_key s, c s)) [Valid, Expired, Fake, Suspected]"
  by (simp add: ownProperties_def status_key_def status_keys_not_indices)

lemma capitalize_keys:
  "map (\<lambda>s. capitalize U (status_key s)) [Valid, Expired, Fake, Suspected] =
     [str ''Valid'', str ''Expired'', str ''Fake'', str ''Suspected'']"
  by (simp add: capitalize_def status_key_def str_def toUpperCase_def upperLatin_def)

lemma status_key_lookup:
  "map_of (map (\<lambda>s. (status_key s, c s)) [Valid, Expired, Fake, Suspected]) (status_key s) =
     Some (c s)"
  by (cases s) (simp_all add: status_key_def str_def)

lemma collect_Inr: "collect (map (\<lambda>x. Inr (f x)) xs) = Inr (map f xs)"
  by (induction xs) simp_all

lemma stats_object_props:
  "truthy (stats_object did sm)"
  "getProp (stats_object did sm) (str ''total_verifications'') = Inr (Num (totalCount sm))"
  "getProp (stats_object did sm) (str ''status_distribution'') =
     Inr (Obj (map (\<lambda>s. (status_key s, Num (countsByStatus sm s))) [Valid, Expired, Fake, Suspected]))"
  "getProp (stats_object did sm) (str ''daily_verifications'') =
     Inr (Arr (map (\<lambda>(d, k). Obj [(str ''_id'', did d), (str ''count'', Num k)]) (dailyCounts sm)))"
  "getProp (stats_object did sm) (str ''total_medicines'') = Inr (Num (totalBatches sm))"
  by (simp_all add: stats_object_def truthy_def getProp_def str_def)

lemma cards_stats_object:
  "cards (stats_object did sm) =
     Inr (Some \<lparr>total_card = Num (totalCount sm), valid_card = Num (countsByStatus sm Valid),
                flagged_card = Some (Num (countsByStatus sm Fake + countsByStatus sm Suspected)),
                database_card = Num (totalBatches sm)\<rparr>)"
proof -
  have p: "getProp (Obj (map (\<lambda>s. (status_key s, Num (countsByStatus sm s)))
      [Valid, Expired, Fake, Suspected])) (status_key s) = Inr (Num (countsByStatus sm s))" for s
    using status_key_lookup [of "\<lambda>s. Num (countsByStatus sm s)" s] by (simp add: getProp_def)
  have z: "or_zero (Num k) = Num k" for k
    by (simp add: or_zero_def truthy_def)
  show ?thesis
    using p [of Valid] p [of Fake] p [of Suspected]
    by (simp add: cards_def stats_object_props status_key_def z js_plus_def)
qed

lemma pie_stats_object:
  "pieChartData U (stats_object did sm) =
     Inr (Some \<lparr>pie_labels = [str ''Valid'', str ''Expired'', str ''Fake'', str ''Suspected''],
                pie_data = map (\<lambda>s. Num (countsByStatus sm s)) [Valid, Expired, Fake, Suspected]\<rparr>)"
  using capitalize_keys [of U] status_properties [of "\<lambda>s. Num (countsByStatus sm s)"]
  by (simp add: pieChartData_def stats_object_props objectKeys_def objectValues_def)

lemma collect_ids:
  "collect (map (\<lambda>item. getProp item (str ''_id''))
      (map (\<lambda>(d, k). Obj [(str ''_id'', did d), (str ''count'', Num k)]) xs)) =
     Inr (map (\<lambda>(d, k). did d) xs)"
  by (induction xs) (auto simp: getProp_def str_def)

lemma collect_counts:
  "collect (map (\<lambda>item. getProp item (str ''count''))
      (map (\<lambda>(d, k). Obj [(str ''_id'', did d), (str ''count'', Num k)]) xs)) =
     Inr (map (\<lambda>(d, k). Num k) xs)"
  by (induction xs) (auto simp: getProp_def str_def)

lemma bar_stats_object:
  "barChartData fmt (stats_object did sm) =
     Inr (Some \<lparr>bar_labels = map fmt (map (\<lambda>(d, k). did d) (dailyCounts sm)),
                bar_data = map (\<lambda>(d, k). Num k) (dailyCounts sm)\<rparr>)"
  unfolding barChartData_def
  by (simp only: stats_object_props collect_ids collect_counts not_True_eq_False if_False
      sum.case jvalue.case)

lemma summary_shape_not_read:
  assumes "summary_shape v"
  shows "pieChartData U v = Inl TypeError" "barChartData fmt v = Inl TypeError"
    "cards v = Inl TypeError"
proof -
  from assms obtain m where v: "v = Obj m"
    and k: "set (map fst m) =
      set [str ''totalCount'', str ''countsByStatus'', str ''dailyCounts'', str ''totalBatches'']"
    by (auto simp: summary_shape_def split: jvalue.splits)
  have n: "map_of m (str ''status_distribution'') = None"
    "map_of m (str ''daily_verifications'') = None"
    using k by (auto simp: map_of_eq_None_iff str_def)
  show "pieChartData U v = Inl TypeError" "barChartData fmt v = Inl TypeError"
    "cards v = Inl TypeError"
    using n by (simp_all add: v pieChartData_def barChartData_def cards_def truthy_def getProp_def
        objectKeys_def)
qed

text \<open>
  Claim C9, as amended. The summary has the total count (the number of events), the counts by
  status with all four statuses present (a status without events counts 0, and the four
  counts add up to the total), the daily counts by calendar day, each day once and ascending
  (they add up to the total too), and the total of batches; without events every count is 0
  and there is no day. The dashboard consumes it under the names \<open>total_verifications\<close>,
  \<open>status_distribution\<close> (keys \<open>valid\<close>, \<open>expired\<close>, \<open>fake\<close>, \<open>suspected\<close>),
  \<open>daily_verifications\<close> (items with \<open>_id\<close> and \<open>count\<close>) and \<open>total_medicines\<close>:
  from that object its four cards show the total, the Valid count, the sum of the Fake and
  Suspected counts and the number of batches, its pie chart has the four statuses with their
  counts, and its bar chart has the days in ascending order with their counts.
\<close>

theorem stats_summary_shape:
  "totalCount (summarize evs n) = length evs \<and>
   totalBatches (summarize evs n) = n \<and>
   countsByStatus (summarize evs n) = (\<lambda>s. count_status s evs) \<and>
   count_status Valid evs + count_status Expired evs + count_status Fake evs +
     count_status Suspected evs = length evs \<and>
   map fst (dailyCounts (summarize evs n)) = event_days evs \<and>
   sorted (event_days evs) \<and> distinct (event_days evs) \<and>
   set (event_days evs) = (\<lambda>ev. calendar_day (ev_timestamp ev)) ` set evs \<and>
   map snd (dailyCounts (summarize evs n)) =
     map (\<lambda>d. length (filter (\<lambda>ev. calendar_day (ev_timestamp ev) = d) evs)) (event_days evs) \<and>
   sum_list (map snd (dailyCounts (summarize evs n))) = length evs \<and>
   dailyCounts (summarize [] n) = [] \<and> count_status s [] = 0 \<and>
   cards (stats_object did (summarize evs n)) =
     Inr (Some \<lparr>total_card = Num (length evs), valid_card = Num (count_status Valid evs),
                flagged_card = Some (Num (count_status Fake evs + count_status Suspected evs)),
                database_card = Num n\<rparr>) \<and>
   pieChartData U (stats_object did (summarize evs n)) =
     Inr (Some \<lparr>pie_labels = [str ''Valid'', str ''Expired'', str ''Fake'', str ''Suspected''],
                pie_data = [Num (count_status Valid evs), Num (count_status Expired evs),
                  Num (count_status Fake evs), Num (count_status Suspected evs)]\<rparr>) \<and>
   barChartData fmt (stats_object did (summarize evs n)) =
     Inr (Some \<lparr>bar_labels = map (\<lambda>d. fmt (did d)) (event_days evs),
                bar_data =
                  map (\<lambda>d. Num (length (filter (\<lambda>ev. calendar_day (ev_timestamp ev) = d) evs)))
                    (event_days evs)\<rparr>)"
proof (intro conjI)
  show "totalCount (summarize evs n) = length evs" "totalBatches (summarize evs n) = n"
    by (simp_all add: summarize_def)
  show "countsByStatus (summarize evs n) = (\<lambda>s. count_status s evs)"
    by (simp add: summarize_def count_status_def)
  show "count_status Valid evs + count_status Expired evs + count_status Fake evs +
     count_status Suspected evs = length evs"
    by (rule count_status_sum)
  show "map fst (dailyCounts (summarize evs n)) = event_days evs"
    by (simp add: summarize_def comp_def)
  show "sorted (event_days evs)" "distinct (event_days evs)"
    by (simp_all add: sorted_event_days)
  show "set (event_days evs) = (\<lambda>ev. calendar_day (ev_timestamp ev)) ` set evs"
    by (rule set_event_days)
  show "map snd (dailyCounts (summarize evs n)) =
     map (\<lambda>d. length (filter (\<lambda>ev. calendar_day (ev_timestamp ev) = d) evs)) (event_days evs)"
    by (simp add: summarize_def comp_def)
  show "sum_list (map snd (dailyCounts (summarize evs n))) = length evs"
    using sum_buckets [of "event_days evs" "\<lambda>ev. calendar_day (ev_timestamp ev)" evs]
    by (simp add: summarize_def comp_def sorted_event_days set_event_days)
  show "dailyCounts (summarize [] n) = []" "count_status s [] = 0"
    by (simp_all add: summarize_def event_days_def count_status_def)
  show "cards (stats_object did (summarize evs n)) =
     Inr (Some \<lparr>total_card = Num (length evs), valid_card = Num (count_status Valid evs),
                flagged_card = Some (Num (count_status Fake evs + count_status Suspected evs)),
                database_card = Num n\<rparr>)"
    by (simp add: cards_stats_object) (simp add: summarize_def count_status_def)
  show "pieChartData U (stats_object did (summarize evs n)) =
     Inr (Some \<lparr>pie_labels = [str ''Valid'', str ''Expired'', str ''Fake'', str ''Suspected''],
                pie_data = [Num (count_status Valid evs), Num (count_status Expired evs),
                  Num (count_status Fake evs), Num (count_status Suspected evs)]\<rparr>)"
    by (simp add: pie_stats_object) (simp add: summarize_def count_status_def)
  show "barChartData fmt (stats_object did (summarize evs n)) =
     Inr (Some \<lparr>bar_labels = map (\<lambda>d. fmt (did d)) (event_days evs),
                bar_data =
                  map (\<lambda>d. Num (length (filter (\<lambda>ev. calendar_day (ev_timestamp ev) = d) evs)))
                    (event_days evs)\<rparr>)"
    by (simp add: bar_stats_object) (simp add: summarize_def comp_def)
qed

theorem stats_summary_shape_witness:
  "cards (stats_object (\<lambda>d. Num (nat d))
      (summarize
        [\<lparr>ev_code = str ''A'', ev_status = Valid, ev_confidence = 1, ev_location = None,
           ev_timestamp = 200000\<rparr>,
         \<lparr>ev_code = str ''B'', ev_status = Fake, ev_confidence = 1, ev_location = None,
           ev_timestamp = 100000\<rparr>,
         \<lparr>ev_code = str ''A'', ev_status = Valid, ev_confidence = 1, ev_location = None,
           ev_timestamp = 100001\<rparr>] 50)) =
     Inr (Some \<lparr>total_card = Num 3, valid_card = Num 2, flagged_card = Some (Num 1),
                database_card = Num 50\<rparr>) \<and>
   barChartData (\<lambda>v. []) (stats_object (\<lambda>d. Num (nat d))
      (summarize
        [\<lparr>ev_code = str ''A'', ev_status = Valid, ev_confidence = 1, ev_location = None,
           ev_timestamp = 200000\<rparr>,
         \<lparr>ev_code = str ''B'', ev_status = Fake, ev_confidence = 1, ev_location = None,
           ev_timestamp = 100000\<rparr>,
         \<lparr>ev_code = str ''A'', ev_status = Valid, ev_confidence = 1, ev_location = None,
           ev_timestamp = 100001\<rparr>] 50)) =
     Inr (Some \<lparr>bar_labels = [[], []], bar_data = [Num 2, Num 1]\<rparr>)"
  using stats_summary_shape [of
      "[\<lparr>ev_code = str ''A'', ev_status = Valid, ev_confidence = 1, ev_location = None,
           ev_timestamp = 200000\<rparr>,
         \<lparr>ev_code = str ''B'', ev_status = Fake, ev_confidence = 1, ev_location = None,
           ev_timestamp = 100000\<rparr>,
         \<lparr>ev_code = str ''A'', ev_status = Valid, ev_confidence = 1, ev_location = None,
           ev_timestamp = 100001\<rparr>]" 50 Valid "\<lambda>d. Num (nat d)" "\<lambda>r. r" "\<lambda>v. []"]
  by (simp add: count_status_def event_days_def calendar_day_def)

text \<open>
  Claim C9 as it was stated fails on the names: the summary of no event under the names of
  the spec, \<open>totalCount\<close>, \<open>countsByStatus\<close>, \<open>dailyCounts\<close> and \<open>totalBatches\<close>, is
  not an object the dashboard can render. \<open>stats.status_distribution\<close> and
  \<open>stats.daily_verifications\<close> are \<open>undefined\<close> in it, and \<open>Object.keys\<close>, \<open>.map\<close>
  and \<open>.valid\<close> throw a TypeError.
\<close>

theorem stats_spec_names_counterexample:
  "summary_shape
     (Obj [(str ''totalCount'', Num 0),
           (str ''countsByStatus'',
              Obj [(str ''Fake'', Num 0), (str ''Expired'', Num 0), (str ''Suspected'', Num 0),
                   (str ''Valid'', Num 0)]),
           (str ''dailyCounts'', Arr []),
           (str ''totalBatches'', Num 0)]) \<and>
   pieChartData (\<lambda>r. r)
     (Obj [(str ''totalCount'', Num 0),
           (str ''countsByStatus'',
              Obj [(str ''Fake'', Num 0), (str ''Expired'', Num 0), (str ''Suspected'', Num 0),
                   (str ''Valid'', Num 0)]),
           (str ''dailyCounts'', Arr []),
           (str ''totalBatches'', Num 0)]) = Inl TypeError \<and>
   barChartData (\<lambda>v. [])
     (Obj [(str ''totalCount'', Num 0),
           (str ''countsByStatus'',
              Obj [(str ''Fake'', Num 0), (str ''Expired'', Num 0), (str ''Suspected'', Num 0),
                   (str ''Valid'', Num 0)]),
           (str ''dailyCounts'', Arr []),
           (str ''totalBatches'', Num 0)]) = Inl TypeError \<and>
   cards
     (Obj [(str ''totalCount'', Num 0),
           (str ''countsByStatus'',
              Obj [(str ''Fake'', Num 0), (str ''Expired'', Num 0), (str ''Suspected'', Num 0),
                   (str ''Valid'', Num 0)]),
           (str ''dailyCounts'', Arr []),
           (str ''totalBatches'', Num 0)]) = Inl TypeError"
  by (simp add: summary_shape_def pieChartData_def barChartData_def cards_def truthy_def
      getProp_def objectKeys_def str_def)

end
